theory Spec2Isabelle
  imports Main "HOL-Library.Sublist"
begin

section \<open>Python values, strings and exceptions\<close>

text \<open>
  The two servers \<^verbatim>\<open>server.py\<close> and \<^verbatim>\<open>server_jumbos.py\<close> share
  \<^verbatim>\<open>validate_table_name\<close>, \<^verbatim>\<open>get_db_config\<close>, \<^verbatim>\<open>execute_sql\<close> and
  \<^verbatim>\<open>count_user_logins\<close> word for word; \<^verbatim>\<open>report_trial_balance_by_seg_ref\<close> is in the
  first only, \<^verbatim>\<open>list_sql_tables\<close> and \<^verbatim>\<open>read_table_preview\<close> in the second only.

  A Python \<^verbatim>\<open>str\<close> is a \<open>string\<close> whose characters are the code points below 256;
  the functions below follow CPython on those code points. Cell values of a result row are
  \<^verbatim>\<open>None\<close>, a string or an integer. Logging and the \<^verbatim>\<open>async\<close> wrapper have no
  effect on results and are left out.
\<close>

datatype pyval = PNone | PStr string | PInt int

datatype exn =
    ValueError string
  | TypeError string
  | IndexError string
  | DriverError string

text \<open>\<^verbatim>\<open>str(e)\<close> of an exception built from one message.\<close>

fun exn_str :: "exn \<Rightarrow> string" where
  "exn_str (ValueError m) = m"
| "exn_str (TypeError m) = m"
| "exn_str (IndexError m) = m"
| "exn_str (DriverError m) = m"

definition newline :: char where
  "newline = CHR 0x0A"

definition backslash :: char where
  "backslash = CHR 0x5C"

definition squote :: char where
  "squote = CHR 0x27"

definition dquote :: char where
  "dquote = CHR 0x22"

subsection \<open>\<^verbatim>\<open>str(int)\<close>\<close>

definition digit_char :: "nat \<Rightarrow> char" where
  "digit_char d = ''0123456789abcdef'' ! d"

function str_of_nat :: "nat \<Rightarrow> string" where
  "str_of_nat n = (if n < 10 then [digit_char n] else str_of_nat (n div 10) @ [digit_char (n mod 10)])"
  by pat_completeness auto
termination
  by (relation "measure id") auto

declare str_of_nat.simps [simp del]

definition str_of_int :: "int \<Rightarrow> string" where
  "str_of_int i = (if i < 0 then CHR ''-'' # str_of_nat (nat (- i)) else str_of_nat (nat i))"

text \<open>\<^verbatim>\<open>str(value)\<close> of a cell.\<close>

fun py_str :: "pyval \<Rightarrow> string" where
  "py_str PNone = ''None''"
| "py_str (PStr s) = s"
| "py_str (PInt i) = str_of_int i"

text \<open>Truth value of a cell, as \<^verbatim>\<open>not v\<close> and \<^verbatim>\<open>all([...])\<close> read it.\<close>

fun truthy :: "pyval \<Rightarrow> bool" where
  "truthy PNone = False"
| "truthy (PStr s) = (s \<noteq> [])"
| "truthy (PInt i) = (i \<noteq> 0)"

subsection \<open>\<^verbatim>\<open>sep.join(parts)\<close> and \<^verbatim>\<open>s.split(c)\<close>\<close>

fun join :: "string \<Rightarrow> string list \<Rightarrow> string" where
  "join sep [] = []"
| "join sep [x] = x"
| "join sep (x # y # ys) = x @ sep @ join sep (y # ys)"

fun split_on :: "char \<Rightarrow> string \<Rightarrow> string list" where
  "split_on c [] = [[]]"
| "split_on c (x # xs) =
     (let r = split_on c xs
      in if x = c then [] # r else (x # hd r) # tl r)"

subsection \<open>\<^verbatim>\<open>repr(str)\<close>, as the message of a failed \<^verbatim>\<open>int()\<close> shows it\<close>

definition printable :: "char \<Rightarrow> bool" where
  "printable c =
     (let n = (of_char c :: nat)
      in 32 \<le> n \<and> n \<noteq> 127 \<and> \<not> (128 \<le> n \<and> n \<le> 160) \<and> n \<noteq> 173)"

definition repr_char :: "char \<Rightarrow> char \<Rightarrow> string" where
  "repr_char q c =
     (if c = q \<or> c = backslash then [backslash, c]
      else if c = CHR 0x09 then [backslash, CHR ''t'']
      else if c = CHR 0x0A then [backslash, CHR ''n'']
      else if c = CHR 0x0D then [backslash, CHR ''r'']
      else if printable c then [c]
      else [backslash, CHR ''x'', digit_char (of_char c div 16), digit_char (of_char c mod 16)])"

definition py_repr :: "string \<Rightarrow> string" where
  "py_repr s =
     (let q = (if squote \<in> set s \<and> dquote \<notin> set s then dquote else squote)
      in q # concat (map (repr_char q) s) @ [q])"

subsection \<open>\<^verbatim>\<open>int(str)\<close>\<close>

text \<open>
  \<^verbatim>\<open>int\<close> strips white space on both sides, reads an optional sign and then decimal
  digits, where one underscore may stand between two digits. The interpreter's limit on the
  number of digits (4300 by default where it exists) is a setting of the interpreter and is
  not part of the model.
\<close>

definition int_space :: "char \<Rightarrow> bool" where
  "int_space c =
     (let n = (of_char c :: nat)
      in (9 \<le> n \<and> n \<le> 13) \<or> n = 32 \<or> n = 133 \<or> n = 160)"

definition is_digit :: "char \<Rightarrow> bool" where
  "is_digit c = (48 \<le> (of_char c :: nat) \<and> (of_char c :: nat) \<le> 57)"

definition digit_val :: "char \<Rightarrow> nat" where
  "digit_val c = of_char c - 48"

fun digits_value :: "nat \<Rightarrow> string \<Rightarrow> nat option" where
  "digits_value acc [] = Some acc"
| "digits_value acc [c] = (if is_digit c then Some (10 * acc + digit_val c) else None)"
| "digits_value acc (c # d # ds) =
     (if is_digit c then digits_value (10 * acc + digit_val c) (d # ds)
      else if c = CHR ''_'' \<and> is_digit d then digits_value (10 * acc + digit_val d) ds
      else None)"

definition invalid_literal :: "string \<Rightarrow> exn" where
  "invalid_literal s =
     ValueError (''invalid literal for int() with base 10: '' @ take 200 (py_repr s))"

definition py_int :: "string \<Rightarrow> exn + int" where
  "py_int s =
     (let t = rev (dropWhile int_space (rev (dropWhile int_space s)));
          neg = (case t of [] \<Rightarrow> False | c # _ \<Rightarrow> c = CHR ''-'');
          body = (case t of [] \<Rightarrow> [] | c # r \<Rightarrow> if c = CHR ''+'' \<or> c = CHR ''-'' then r else t)
      in case body of
           [] \<Rightarrow> Inl (invalid_literal s)
         | d # ds \<Rightarrow>
             if is_digit d
             then (case digits_value (digit_val d) ds of
                     None \<Rightarrow> Inl (invalid_literal s)
                   | Some n \<Rightarrow> Inr (if neg then - int n else int n))
             else Inl (invalid_literal s))"

subsection \<open>\<^verbatim>\<open>s.lower()\<close> and \<^verbatim>\<open>s.replace(old, "")\<close>\<close>

text \<open>
  The upper-case letters below 256 are 65 to 90 and 192 to 222 without 215; each has bit 5
  clear, and its lower-case letter is 32 above it, that is, the same character with bit 5 set.
\<close>

definition set_bit5 :: "char \<Rightarrow> char" where
  "set_bit5 c = (case c of Char b0 b1 b2 b3 b4 b5 b6 b7 \<Rightarrow> Char b0 b1 b2 b3 b4 True b6 b7)"

definition lower_char :: "char \<Rightarrow> char" where
  "lower_char c =
     (let n = (of_char c :: nat)
      in if (65 \<le> n \<and> n \<le> 90) \<or> (192 \<le> n \<and> n \<le> 222 \<and> n \<noteq> 215)
         then set_bit5 c else c)"

definition py_lower :: "string \<Rightarrow> string" where
  "py_lower s = map lower_char s"

text \<open>Removing every occurrence of a non-empty \<open>old\<close>, leftmost first, not overlapping.\<close>

function remove_all :: "string \<Rightarrow> string \<Rightarrow> string" where
  "remove_all old s =
     (if old = [] then s
      else case s of
             [] \<Rightarrow> []
           | c # cs \<Rightarrow>
               if prefix old s then remove_all old (drop (length old) s)
               else c # remove_all old cs)"
  by pat_completeness auto
termination
  by (relation "measure (\<lambda>(old, s). length s)") auto

declare remove_all.simps [simp del]

section \<open>Configuration from the environment\<close>

text \<open>
  \<^verbatim>\<open>os.getenv(k)\<close> is \<open>env k\<close>, \<^verbatim>\<open>os.getenv(k, d)\<close> is \<open>getenv_default env k d\<close>.
  The configuration is the Python dict, a map from key to value.
\<close>

type_synonym environ = "string \<rightharpoonup> string"

type_synonym config = "string \<rightharpoonup> pyval"

definition getenv_default :: "environ \<Rightarrow> string \<Rightarrow> string \<Rightarrow> string" where
  "getenv_default env k d = (case env k of None \<Rightarrow> d | Some v \<Rightarrow> v)"

definition getenv_val :: "environ \<Rightarrow> string \<Rightarrow> pyval" where
  "getenv_val env k = (case env k of None \<Rightarrow> PNone | Some v \<Rightarrow> PStr v)"

definition localdb_prefix :: string where
  "localdb_prefix = ''(localdb)'' @ [backslash]"

definition resolve_server :: "environ \<Rightarrow> string" where
  "resolve_server env =
     (let server = getenv_default env ''MSSQL_SERVER'' ''localhost''
      in if prefix localdb_prefix server
         then ''.'' @ [backslash] @ remove_all localdb_prefix server
         else server)"

definition use_windows_auth :: "environ \<Rightarrow> bool" where
  "use_windows_auth env = (py_lower (getenv_default env ''MSSQL_WINDOWS_AUTH'' ''false'') = ''true'')"

text \<open>
  \<^verbatim>\<open>get_db_config\<close>: the dict is built first, and \<^verbatim>\<open>int\<close> of the port variable
  is part of building it, so a port that is no integer literal raises before the
  authentication mode is looked at. \<^verbatim>\<open>MSSQL_ENCRYPT\<close> is read and not used. Under
  integrated authentication \<^verbatim>\<open>config.pop\<close> removes the two credential keys; both
  failing branches raise the same \<^verbatim>\<open>ValueError\<close>.
\<close>

definition missing_config :: exn where
  "missing_config = ValueError ''Missing required database configuration''"

definition get_db_config :: "environ \<Rightarrow> exn + config" where
  "get_db_config env =
     (let server = resolve_server env;
          user = getenv_val env ''MSSQL_USER'';
          password = getenv_val env ''MSSQL_PASSWORD'';
          database = getenv_val env ''MSSQL_DATABASE''
      in case py_int (getenv_default env ''MSSQL_PORT'' ''1433'') of
           Inl e \<Rightarrow> Inl e
         | Inr port \<Rightarrow>
             (let config = [''server'' \<mapsto> PStr server, ''user'' \<mapsto> user,
                            ''password'' \<mapsto> password, ''database'' \<mapsto> database,
                            ''port'' \<mapsto> PInt port]
              in if use_windows_auth env
                 then (if \<not> truthy database then Inl missing_config
                       else Inr (config(''user'' := None, ''password'' := None)))
                 else (if \<not> (truthy user \<and> truthy password \<and> truthy database)
                       then Inl missing_config
                       else Inr config)))"

section \<open>Table names\<close>

text \<open>
  \<^verbatim>\<open>re.match(r'^[a-zA-Z0-9_]+(\.[a-zA-Z0-9_]+)?$', table_name)\<close>. The character class
  holds ASCII letters, digits and the underscore. Without the MULTILINE flag \<^verbatim>\<open>$\<close>
  matches at the end of the string and also just before a newline that is the last
  character of the string. A run of class characters is followed by a character outside the
  class or by the end, so the longest run is the only one that can lead to a match.
\<close>

definition word_char :: "char \<Rightarrow> bool" where
  "word_char c =
     (let n = (of_char c :: nat)
      in (97 \<le> n \<and> n \<le> 122) \<or> (65 \<le> n \<and> n \<le> 90) \<or> (48 \<le> n \<and> n \<le> 57) \<or> n = 95)"

definition at_dollar :: "string \<Rightarrow> bool" where
  "at_dollar r = (r = [] \<or> r = [newline])"

definition table_name_match :: "string \<Rightarrow> bool" where
  "table_name_match s =
     (let seg = takeWhile word_char s; r = dropWhile word_char s
      in seg \<noteq> [] \<and>
         (at_dollar r \<or>
          (case r of
             [] \<Rightarrow> False
           | c # t \<Rightarrow> c = CHR ''.'' \<and> takeWhile word_char t \<noteq> [] \<and> at_dollar (dropWhile word_char t))))"

definition validate_table_name :: "string \<Rightarrow> exn + string" where
  "validate_table_name table_name =
     (if \<not> table_name_match table_name
      then Inl (ValueError (''Invalid table name: '' @ table_name))
      else (let parts = split_on (CHR ''.'') table_name
            in if length parts = 2
               then Inr (''['' @ parts ! 0 @ ''].['' @ parts ! 1 @ '']'')
               else Inr (''['' @ table_name @ '']'')))"

text \<open>
  The specification's reading of the accepted names, kept apart from the code: one segment
  or exactly two segments separated by a dot, each a non-empty run of word characters.
\<close>

definition name_segment :: "string \<Rightarrow> bool" where
  "name_segment a = (a \<noteq> [] \<and> list_all word_char a)"

definition spec_accepts :: "string \<Rightarrow> bool" where
  "spec_accepts s =
     (case split_on (CHR ''.'') s of
        [a] \<Rightarrow> name_segment a
      | [a, b] \<Rightarrow> name_segment a \<and> name_segment b
      | _ \<Rightarrow> False)"

section \<open>The database driver\<close>

text \<open>
  \<^verbatim>\<open>pymssql\<close> is outside the repository. A driver value fixes what each call answers:
  an exception or a value. After \<^verbatim>\<open>execute\<close> the cursor holds a result set: the column
  names of \<^verbatim>\<open>cursor.description\<close> (\<^verbatim>\<open>desc[0]\<close> of every entry, or \<^verbatim>\<open>None\<close>), what
  fetching yields, and \<^verbatim>\<open>cursor.rowcount\<close>. Every call to the driver is recorded as an
  event, in order, whether it raises or not.
\<close>

type_synonym row = "pyval list"

record result_set =
  description :: "string list option"
  fetched :: "exn + row list"
  rowcount :: int

record driver =
  connect_result :: "config \<Rightarrow> exn option"
  cursor_result :: "exn option"
  execute_result :: "string \<Rightarrow> pyval list \<Rightarrow> exn + result_set"
  commit_result :: "exn option"
  cursor_close_result :: "exn option"
  conn_close_result :: "exn option"

datatype event =
    Connect config
  | Cursor
  | Execute string "pyval list"
  | FetchAll
  | FetchOne
  | Commit
  | CursorClose
  | ConnClose

type_synonym 'a action = "event list \<Rightarrow> (exn + 'a) \<times> event list"

definition done_with :: "'a \<Rightarrow> 'a action" where
  "done_with x tr = (Inr x, tr)"

definition raise :: "exn \<Rightarrow> 'a action" where
  "raise e tr = (Inl e, tr)"

definition lift :: "exn + 'a \<Rightarrow> 'a action" where
  "lift r tr = (r, tr)"

definition and_then :: "'a action \<Rightarrow> ('a \<Rightarrow> 'b action) \<Rightarrow> 'b action" where
  "and_then m f tr = (case m tr of (Inl e, tr') \<Rightarrow> (Inl e, tr') | (Inr x, tr') \<Rightarrow> f x tr')"

definition call :: "event \<Rightarrow> exn option \<Rightarrow> unit action" where
  "call ev r tr = ((case r of None \<Rightarrow> Inr () | Some e \<Rightarrow> Inl e), tr @ [ev])"

definition connect :: "driver \<Rightarrow> config \<Rightarrow> unit action" where
  "connect drv config = call (Connect config) (connect_result drv config)"

definition cursor :: "driver \<Rightarrow> unit action" where
  "cursor drv = call Cursor (cursor_result drv)"

definition execute :: "driver \<Rightarrow> string \<Rightarrow> pyval list \<Rightarrow> result_set action" where
  "execute drv sql params tr = (execute_result drv sql params, tr @ [Execute sql params])"

definition fetchall :: "result_set \<Rightarrow> row list action" where
  "fetchall rs tr = (fetched rs, tr @ [FetchAll])"

definition fetchone :: "result_set \<Rightarrow> row option action" where
  "fetchone rs tr =
     ((case fetched rs of
         Inl e \<Rightarrow> Inl e
       | Inr [] \<Rightarrow> Inr None
       | Inr (r # _) \<Rightarrow> Inr (Some r)), tr @ [FetchOne])"

definition commit :: "driver \<Rightarrow> unit action" where
  "commit drv = call Commit (commit_result drv)"

definition cursor_close :: "driver \<Rightarrow> unit action" where
  "cursor_close drv = call CursorClose (cursor_close_result drv)"

definition conn_close :: "driver \<Rightarrow> unit action" where
  "conn_close drv = call ConnClose (conn_close_result drv)"

section \<open>The operations\<close>

text \<open>
  An operation either returns a string or lets an exception leave its body; with it comes
  the list of driver calls it made. \<open>try_except\<close> is
  \<^verbatim>\<open>try: ... return output  except Exception as e: return handler(e)\<close>,
  started with no driver call made.
\<close>

datatype outcome = Returned string | Raised exn

definition try_except :: "string action \<Rightarrow> (exn \<Rightarrow> string) \<Rightarrow> outcome \<times> event list" where
  "try_except body handler =
     (case body [] of
        (Inr output, tr) \<Rightarrow> (Returned output, tr)
      | (Inl e, tr) \<Rightarrow> (Returned (handler e), tr))"

text \<open>
  \<^verbatim>\<open>columns = [desc[0] for desc in cursor.description]\<close> raises when the description is
  \<^verbatim>\<open>None\<close>.
\<close>

definition columns_of :: "result_set \<Rightarrow> string list action" where
  "columns_of rs =
     (case description rs of
        None \<Rightarrow> raise (TypeError ([squote] @ ''NoneType'' @ [squote] @ '' object is not iterable''))
      | Some cols \<Rightarrow> done_with cols)"

text \<open>
  \<^verbatim>\<open>result = [",".join(map(str, row)) for row in rows]\<close> and
  \<^verbatim>\<open>"\n".join([",".join(columns)] + result)\<close>.
\<close>

definition format_rows :: "string list \<Rightarrow> row list \<Rightarrow> string" where
  "format_rows columns rows =
     (let result = map (\<lambda>row. join '','' (map py_str row)) rows
      in join [newline] ([join '','' columns] @ result))"

definition execute_sql :: "environ \<Rightarrow> driver \<Rightarrow> string \<Rightarrow> outcome \<times> event list" where
  "execute_sql env drv query =
     (case get_db_config env of
        Inl e \<Rightarrow> (Raised e, [])
      | Inr config \<Rightarrow>
          try_except
            (and_then (connect drv config) (\<lambda>_.
             and_then (cursor drv) (\<lambda>_.
             and_then (execute drv query []) (\<lambda>rs.
             and_then
               (if description rs \<noteq> None \<and> description rs \<noteq> Some []
                then and_then (columns_of rs) (\<lambda>columns.
                     and_then (fetchall rs) (\<lambda>rows.
                     done_with (format_rows columns rows)))
                else and_then (commit drv) (\<lambda>_.
                     done_with (''Query executed successfully. Rows affected: ''
                                @ str_of_int (rowcount rs))))
               (\<lambda>output.
             and_then (cursor_close drv) (\<lambda>_.
             and_then (conn_close drv) (\<lambda>_.
             done_with output)))))))
            (\<lambda>e. ''Error executing query: '' @ exn_str e))"

text \<open>The statement texts, line by line as the source files have them.\<close>

definition report_query :: string where
  "report_query = join [newline]
     ['''',
      ''    WITH TransactionData AS ('',
      ''        SELECT '',
      ''            je.transaction_date AS [Date],'',
      ''            je.journal_entry_id AS [Journal Entry],'',
      ''            je.source_document_type AS [Doc. Type],'',
      ''            je.source_document_id AS [Source Doc ID],'',
      ''            jed.reference_number AS [Reference #],'',
      ''            jed.source_reference_number AS [Source Ref #],'',
      ''            jed.description AS [Description],'',
      ''            je.backdated AS [Backdated],'',
      ''            CASE WHEN jed.amount > 0 THEN jed.amount ELSE 0 END AS [Debits],'',
      ''            CASE WHEN jed.amount < 0 THEN ABS(jed.amount) ELSE 0 END AS [Credits]'',
      ''        FROM [Prologue90].[dbo].[gl_journal_entry] je'',
      ''        INNER JOIN [Prologue90].[dbo].[gl_journal_entry_detail] jed'',
      ''            ON je.journal_entry_id = jed.journal_entry_id'',
      ''        WHERE '',
      ''            je.transaction_date BETWEEN %s AND %s'',
      ''            AND jed.account_id LIKE %s'',
      ''    )'',
      ''    SELECT '',
      ''        [Date],'',
      ''        [Journal Entry],'',
      ''        [Doc. Type],'',
      ''        [Source Doc ID],'',
      ''        [Reference #],'',
      ''        [Source Ref #],'',
      ''        [Description],'',
      ''        [Backdated],'',
      ''        [Debits],'',
      ''        [Credits],'',
      ''        SUM([Debits] - [Credits]) OVER (ORDER BY [Date], [Journal Entry]) AS [Ending Balance]'',
      ''    FROM TransactionData'',
      ''    ORDER BY [Date], [Journal Entry];'',
      ''    '']"

definition count_sql :: string where
  "count_sql = join [newline]
     ['''',
      ''    SELECT COUNT(*) AS appearances'',
      ''    FROM am_user_security_log'',
      ''    WHERE user_id = %s'',
      ''    AND YEAR(date_time) = %s;'',
      ''    '']"

definition list_tables_sql :: string where
  "list_tables_sql = join [newline]
     ['''',
      ''    SELECT TABLE_SCHEMA, TABLE_NAME'',
      ''    FROM INFORMATION_SCHEMA.TABLES'',
      ''    WHERE TABLE_TYPE = '' @ [squote] @ ''BASE TABLE'' @ [squote],
      ''    ORDER BY TABLE_SCHEMA, TABLE_NAME;'',
      ''    '']"

definition report_trial_balance_by_seg_ref ::
  "environ \<Rightarrow> driver \<Rightarrow> string \<Rightarrow> string \<Rightarrow> string \<Rightarrow> outcome \<times> event list" where
  "report_trial_balance_by_seg_ref env drv start_date end_date account_id =
     (case get_db_config env of
        Inl e \<Rightarrow> (Raised e, [])
      | Inr config \<Rightarrow>
          try_except
            (and_then (connect drv config) (\<lambda>_.
             and_then (cursor drv) (\<lambda>_.
             and_then (execute drv report_query [PStr start_date, PStr end_date, PStr account_id]) (\<lambda>rs.
             and_then (columns_of rs) (\<lambda>columns.
             and_then (fetchall rs) (\<lambda>rows.
             and_then (cursor_close drv) (\<lambda>_.
             and_then (conn_close drv) (\<lambda>_.
             done_with (format_rows columns rows)))))))))
            (\<lambda>e. ''Error: '' @ exn_str e))"

text \<open>
  \<^verbatim>\<open>year: Union[str, int]\<close>, and \<^verbatim>\<open>year = str(year)\<close> as the first statement.
  \<^verbatim>\<open>cursor.fetchone()[0]\<close> raises on \<^verbatim>\<open>None\<close> and on an empty row.
\<close>

datatype year_arg = YearInt int | YearStr string

fun year_str :: "year_arg \<Rightarrow> string" where
  "year_str (YearInt y) = str_of_int y"
| "year_str (YearStr s) = s"

definition first_cell :: "row option \<Rightarrow> pyval action" where
  "first_cell r =
     (case r of
        None \<Rightarrow> raise (TypeError ([squote] @ ''NoneType'' @ [squote] @ '' object is not subscriptable''))
      | Some [] \<Rightarrow> raise (IndexError ''tuple index out of range'')
      | Some (v # _) \<Rightarrow> done_with v)"

definition count_user_logins ::
  "environ \<Rightarrow> driver \<Rightarrow> string \<Rightarrow> year_arg \<Rightarrow> outcome \<times> event list" where
  "count_user_logins env drv user_id year0 =
     (let year = year_str year0
      in case get_db_config env of
           Inl e \<Rightarrow> (Raised e, [])
         | Inr config \<Rightarrow>
             try_except
               (and_then (connect drv config) (\<lambda>_.
                and_then (cursor drv) (\<lambda>_.
                and_then (execute drv count_sql [PStr user_id, PStr year]) (\<lambda>rs.
                and_then (fetchone rs) (\<lambda>r.
                and_then (first_cell r) (\<lambda>count.
                and_then (cursor_close drv) (\<lambda>_.
                and_then (conn_close drv) (\<lambda>_.
                done_with (user_id @ '' appeared '' @ py_str count @ '' times in '' @ year)))))))))
               (\<lambda>e. ''Error: '' @ exn_str e))"

text \<open>
  \<^verbatim>\<open>for schema, name in tables: lines.append(f"{schema},{name}")\<close>: a row that is not a
  pair stops the loop with the unpacking error.
\<close>

definition unpack_error :: "nat \<Rightarrow> exn" where
  "unpack_error n =
     (if n < 2
      then ValueError (''not enough values to unpack (expected 2, got '' @ str_of_nat n @ '')'')
      else ValueError ''too many values to unpack (expected 2)'')"

fun table_lines :: "row list \<Rightarrow> exn + string list" where
  "table_lines [] = Inr []"
| "table_lines (r # rs) =
     (case r of
        [schema, name] \<Rightarrow>
          (case table_lines rs of
             Inl e \<Rightarrow> Inl e
           | Inr ls \<Rightarrow> Inr ((py_str schema @ '','' @ py_str name) # ls))
      | _ \<Rightarrow> Inl (unpack_error (length r)))"

definition list_sql_tables :: "environ \<Rightarrow> driver \<Rightarrow> outcome \<times> event list" where
  "list_sql_tables env drv =
     (case get_db_config env of
        Inl e \<Rightarrow> (Raised e, [])
      | Inr config \<Rightarrow>
          try_except
            (and_then (connect drv config) (\<lambda>_.
             and_then (cursor drv) (\<lambda>_.
             and_then (execute drv list_tables_sql []) (\<lambda>rs.
             and_then (fetchall rs) (\<lambda>tables.
             and_then (cursor_close drv) (\<lambda>_.
             and_then (conn_close drv) (\<lambda>_.
             if tables = [] then done_with ''No tables found in this database.''
             else and_then (lift (table_lines tables)) (\<lambda>lines.
                  done_with (join [newline] (''Schema,Table'' # lines))))))))))
            (\<lambda>e. ''Error listing tables: '' @ exn_str e))"

definition read_table_preview :: "environ \<Rightarrow> driver \<Rightarrow> string \<Rightarrow> outcome \<times> event list" where
  "read_table_preview env drv table_name =
     (case get_db_config env of
        Inl e \<Rightarrow> (Raised e, [])
      | Inr config \<Rightarrow>
          try_except
            (and_then (lift (validate_table_name table_name)) (\<lambda>safe_table.
             and_then (connect drv config) (\<lambda>_.
             and_then (cursor drv) (\<lambda>_.
             and_then (execute drv (''SELECT TOP 100 * FROM '' @ safe_table) []) (\<lambda>rs.
             and_then (columns_of rs) (\<lambda>columns.
             and_then (fetchall rs) (\<lambda>rows.
             and_then (cursor_close drv) (\<lambda>_.
             and_then (conn_close drv) (\<lambda>_.
             if rows = [] then done_with ''No data found in this table.''
             else done_with (format_rows columns rows))))))))))
            (\<lambda>e. ''Error reading table '' @ [squote] @ table_name @ [squote] @ '': '' @ exn_str e))"

section \<open>Notions used in the statements, and sample inputs\<close>

definition bracket :: "string \<Rightarrow> string" where
  "bracket p = ''['' @ p @ '']''"

definition nonempty_str :: "pyval option \<Rightarrow> bool" where
  "nonempty_str v = (case v of Some (PStr s) \<Rightarrow> s \<noteq> [] | _ \<Rightarrow> False)"

definition unset_or_empty :: "environ \<Rightarrow> string \<Rightarrow> bool" where
  "unset_or_empty env k = (env k = None \<or> env k = Some [])"

definition resolved_port :: "environ \<Rightarrow> exn + pyval option" where
  "resolved_port env =
     (case get_db_config env of Inl e \<Rightarrow> Inl e | Inr config \<Rightarrow> Inr (config ''port''))"

definition cred_env :: environ where
  "cred_env = [''MSSQL_USER'' \<mapsto> ''sa'', ''MSSQL_PASSWORD'' \<mapsto> ''secret'',
               ''MSSQL_DATABASE'' \<mapsto> ''Prologue90'']"

definition cred_config :: config where
  "cred_config = [''server'' \<mapsto> PStr ''localhost'', ''user'' \<mapsto> PStr ''sa'',
                  ''password'' \<mapsto> PStr ''secret'', ''database'' \<mapsto> PStr ''Prologue90'',
                  ''port'' \<mapsto> PInt 1433]"

definition win_env :: environ where
  "win_env = [''MSSQL_WINDOWS_AUTH'' \<mapsto> ''True'', ''MSSQL_DATABASE'' \<mapsto> ''IPA_Jumbos'']"

definition win_config :: config where
  "win_config = [''server'' \<mapsto> PStr ''localhost'', ''database'' \<mapsto> PStr ''IPA_Jumbos'',
                 ''port'' \<mapsto> PInt 1433]"

definition ok_driver :: "result_set \<Rightarrow> driver" where
  "ok_driver rs =
     \<lparr>connect_result = (\<lambda>_. None), cursor_result = None,
      execute_result = (\<lambda>_ _. Inr rs), commit_result = None,
      cursor_close_result = None, conn_close_result = None\<rparr>"

definition failing_driver :: driver where
  "failing_driver =
     \<lparr>connect_result = (\<lambda>_. None), cursor_result = None,
      execute_result = (\<lambda>_ _. Inl (DriverError ''Invalid object name'')),
      commit_result = None, cursor_close_result = None, conn_close_result = None\<rparr>"

definition ab_result :: result_set where
  "ab_result =
     \<lparr>description = Some [''a'', ''b''],
      fetched = Inr [[PInt 1, PInt 2], [PInt 3, PInt 4]], rowcount = - 1\<rparr>"

definition empty_result :: result_set where
  "empty_result = \<lparr>description = Some [''id'', ''name''], fetched = Inr [], rowcount = - 1\<rparr>"

definition count_result :: result_set where
  "count_result = \<lparr>description = Some [''appearances''], fetched = Inr [[PInt 3]], rowcount = - 1\<rparr>"

text \<open>
  A database with one table \<^verbatim>\<open>dbo.t\<close>, which is empty: the listing statement yields
  one row, every other statement none.
\<close>

definition tables_result :: result_set where
  "tables_result =
     \<lparr>description = Some [''TABLE_SCHEMA'', ''TABLE_NAME''],
      fetched = Inr [[PStr ''dbo'', PStr ''t'']], rowcount = - 1\<rparr>"

definition one_table_driver :: driver where
  "one_table_driver =
     \<lparr>connect_result = (\<lambda>_. None), cursor_result = None,
      execute_result =
        (\<lambda>sql _. if sql = list_tables_sql then Inr tables_result else Inr empty_result),
      commit_result = None, cursor_close_result = None, conn_close_result = None\<rparr>"

section \<open>Evaluation on the sample inputs\<close>

lemmas action_defs = done_with_def raise_def lift_def and_then_def call_def connect_def
  cursor_def execute_def fetchall_def fetchone_def commit_def cursor_close_def conn_close_def
  try_except_def columns_of_def first_cell_def

lemmas config_defs = get_db_config_def getenv_default_def getenv_val_def use_windows_auth_def
  py_lower_def lower_char_def set_bit5_def py_int_def int_space_def is_digit_def digit_val_def
  resolve_server_def localdb_prefix_def missing_config_def

lemmas table_name_defs = validate_table_name_def table_name_match_def word_char_def at_dollar_def

lemma get_db_config_cred_env: "get_db_config cred_env = Inr cred_config"
  by (simp add: config_defs cred_env_def cred_config_def)

lemma get_db_config_win_env: "get_db_config win_env = Inr win_config"
  by (simp add: config_defs win_env_def win_config_def fun_eq_iff)

lemma use_windows_auth_win_env: "use_windows_auth win_env"
  by (simp add: config_defs win_env_def)

lemma get_db_config_empty: "get_db_config Map.empty = Inl missing_config"
  by (simp add: config_defs)

lemma str_of_int_small:
  "str_of_int 1 = ''1''" "str_of_int 2 = ''2''" "str_of_int 3 = ''3''" "str_of_int 4 = ''4''"
  by (simp_all add: str_of_int_def str_of_nat.simps digit_char_def)

lemma not_listing:
  "''SELECT id, name FROM t'' \<noteq> list_tables_sql"
  "''SELECT TOP 100 * FROM [dbo].[t]'' \<noteq> list_tables_sql"
  by (simp_all add: list_tables_sql_def newline_def)

lemma resolve_server_localdb:
  "resolve_server [''MSSQL_SERVER'' \<mapsto> ''(localdb)'' @ [backslash] @ ''MSSQLLocalDB'']
     = ''.'' @ [backslash] @ ''MSSQLLocalDB''"
  by (simp add: resolve_server_def getenv_default_def localdb_prefix_def remove_all.simps
      backslash_def)

section \<open>Configuration errors leave the operation\<close>

text \<open>
  Claim C1: when configuration resolution fails, each operation catches the error and
  returns an error string; no exception leaves the operation body. The docstrings promise
  ``results or an error message'' and the handler of every operation catches every
  exception, but \<^verbatim>\<open>config = get_db_config()\<close> stands one line above the \<^verbatim>\<open>try\<close>. With
  an empty environment each of the five operations returns nothing: the \<^verbatim>\<open>ValueError\<close>
  of the resolution leaves its body, before any driver call.
\<close>

theorem config_error_not_caught:
  "execute_sql Map.empty failing_driver ''SELECT 1'' = (Raised missing_config, [])
   \<and> report_trial_balance_by_seg_ref Map.empty failing_driver ''2024-01-01'' ''2024-12-31''
         ''7206-0000%'' = (Raised missing_config, [])
   \<and> count_user_logins Map.empty failing_driver ''alice'' (YearInt 2023)
         = (Raised missing_config, [])
   \<and> list_sql_tables Map.empty failing_driver = (Raised missing_config, [])
   \<and> read_table_preview Map.empty failing_driver ''dbo.accounts''
         = (Raised missing_config, [])"
  by (simp add: execute_sql_def report_trial_balance_by_seg_ref_def count_user_logins_def
      list_sql_tables_def read_table_preview_def get_db_config_empty)

text \<open>
  The extent of the defect: whatever the resolution raises leaves every operation, for
  every environment in which it fails.
\<close>

lemma config_error_leaves_operations:
  assumes "get_db_config env = Inl e"
  shows "execute_sql env drv query = (Raised e, [])
       \<and> report_trial_balance_by_seg_ref env drv start_date end_date account_id = (Raised e, [])
       \<and> count_user_logins env drv user_id year = (Raised e, [])
       \<and> list_sql_tables env drv = (Raised e, [])
       \<and> read_table_preview env drv table_name = (Raised e, [])"
  using assms
  by (simp add: execute_sql_def report_trial_balance_by_seg_ref_def count_user_logins_def
      list_sql_tables_def read_table_preview_def)

text \<open>
  What the \<^verbatim>\<open>try\<close> does cover: once the configuration is resolved, every operation
  returns a string, whatever the validator and the driver do.
\<close>

lemma try_except_returns: "\<exists>s. fst (try_except body handler) = Returned s"
  by (simp add: try_except_def split: prod.splits sum.splits)

lemma operations_return_after_config:
  assumes "get_db_config env = Inr config"
  shows "\<exists>s. fst (execute_sql env drv query) = Returned s"
    and "\<exists>s. fst (report_trial_balance_by_seg_ref env drv start_date end_date account_id) = Returned s"
    and "\<exists>s. fst (count_user_logins env drv user_id year) = Returned s"
    and "\<exists>s. fst (list_sql_tables env drv) = Returned s"
    and "\<exists>s. fst (read_table_preview env drv table_name) = Returned s"
  using assms
  by (simp_all add: execute_sql_def report_trial_balance_by_seg_ref_def count_user_logins_def
      list_sql_tables_def read_table_preview_def try_except_returns Let_def)

section \<open>Closing the connection\<close>

text \<open>
  Claim C2: the connection and its cursor are closed on every exit path. The operations
  call \<^verbatim>\<open>cursor.close()\<close> and \<^verbatim>\<open>conn.close()\<close> inside the \<^verbatim>\<open>try\<close>, after the
  statement; there is no \<^verbatim>\<open>finally\<close>. When \<^verbatim>\<open>execute\<close> raises, the handler returns
  the error string and neither close has been called: the connection and the cursor were
  opened and the last driver call is the failed \<^verbatim>\<open>execute\<close>.
\<close>

theorem execute_sql_error_path_no_close:
  "execute_sql cred_env failing_driver ''SELECT * FROM missing'' =
     (Returned ''Error executing query: Invalid object name'',
      [Connect cred_config, Cursor, Execute ''SELECT * FROM missing'' []])"
  by (simp add: execute_sql_def get_db_config_cred_env action_defs failing_driver_def)

text \<open>
  The same for any driver and statement: when the connection and the cursor are opened and
  \<^verbatim>\<open>execute\<close> raises, the operation returns the error string and has called neither
  close.
\<close>

lemma execute_sql_execute_raises:
  assumes "get_db_config env = Inr config"
    and "connect_result drv config = None" and "cursor_result drv = None"
    and "execute_result drv query [] = Inl e"
  shows "execute_sql env drv query =
           (Returned (''Error executing query: '' @ exn_str e),
            [Connect config, Cursor, Execute query []])"
  using assms by (simp add: execute_sql_def action_defs)

lemma read_table_preview_fetch_raises:
  assumes "get_db_config env = Inr config"
    and "validate_table_name table_name = Inr safe_table"
    and "connect_result drv config = None" and "cursor_result drv = None"
    and "execute_result drv (''SELECT TOP 100 * FROM '' @ safe_table) [] = Inr rs"
    and "description rs = Some columns" and "fetched rs = Inl e"
  shows "read_table_preview env drv table_name =
           (Returned (''Error reading table '' @ [squote] @ table_name @ [squote] @ '': ''
                      @ exn_str e),
            [Connect config, Cursor, Execute (''SELECT TOP 100 * FROM '' @ safe_table) [],
             FetchAll])"
  using assms by (simp add: read_table_preview_def action_defs)

section \<open>Table names: what the validator accepts\<close>

text \<open>
  Splitting at a character and joining with it are inverse, and no piece contains the
  character.
\<close>

lemma not_word_char_dot: "\<not> word_char (CHR ''.'')"
  by (simp add: word_char_def)

lemma not_word_char_newline: "\<not> word_char newline"
  by (simp add: word_char_def newline_def)

lemma split_on_not_Nil: "split_on c s \<noteq> []"
  by (induction s) (simp_all add: Let_def)

lemma split_on_no_sep: "c \<notin> set a \<Longrightarrow> split_on c a = [a]"
  by (induction a) (auto simp: Let_def)

lemma split_on_append_sep: "c \<notin> set a \<Longrightarrow> split_on c (a @ c # rest) = a # split_on c rest"
  by (induction a) (auto simp: Let_def)

lemma join_split_on: "join [c] (split_on c s) = s"
proof (induction s)
  case Nil
  show ?case by simp
next
  case (Cons x xs)
  obtain p ps where r: "split_on c xs = p # ps"
    using split_on_not_Nil [of c xs] by (cases "split_on c xs") auto
  show ?case
  proof (cases "x = c")
    case True
    with Cons r show ?thesis by (simp add: Let_def)
  next
    case False
    with Cons r show ?thesis by (cases ps) (simp_all add: Let_def)
  qed
qed

lemma split_on_hd_no_sep: "c \<notin> set (hd (split_on c s))"
  by (induction s) (simp_all add: Let_def)

lemma split_on_all_no_sep: "p \<in> set (split_on c s) \<Longrightarrow> c \<notin> set p"
proof (induction s arbitrary: p)
  case Nil
  then show ?case by simp
next
  case (Cons x xs)
  obtain q qs where r: "split_on c xs = q # qs"
    using split_on_not_Nil [of c xs] by (cases "split_on c xs") auto
  from Cons r show ?case
    by (auto simp: Let_def split: if_splits)
qed

lemma name_segment_no_dot: "name_segment a \<Longrightarrow> CHR ''.'' \<notin> set a"
  using not_word_char_dot by (auto simp: name_segment_def list_all_iff)

lemma spec_accepts_iff:
  "spec_accepts s \<longleftrightarrow>
     name_segment s \<or> (\<exists>a b. name_segment a \<and> name_segment b \<and> s = a @ ''.'' @ b)"
proof
  assume acc: "spec_accepts s"
  have j: "join ''.'' (split_on (CHR ''.'') s) = s"
    by (rule join_split_on)
  show "name_segment s \<or> (\<exists>a b. name_segment a \<and> name_segment b \<and> s = a @ ''.'' @ b)"
  proof (cases "split_on (CHR ''.'') s")
    case Nil
    with acc show ?thesis by (simp add: spec_accepts_def)
  next
    case (Cons a rest)
    show ?thesis
    proof (cases rest)
      case Nil
      with Cons acc j show ?thesis by (simp add: spec_accepts_def)
    next
      case (Cons b rest')
      with \<open>split_on (CHR ''.'') s = a # rest\<close> acc j show ?thesis
        by (cases rest') (auto simp: spec_accepts_def)
    qed
  qed
next
  assume "name_segment s \<or> (\<exists>a b. name_segment a \<and> name_segment b \<and> s = a @ ''.'' @ b)"
  then show "spec_accepts s"
  proof
    assume "name_segment s"
    then show ?thesis
      by (simp add: spec_accepts_def split_on_no_sep name_segment_no_dot)
  next
    assume "\<exists>a b. name_segment a \<and> name_segment b \<and> s = a @ ''.'' @ b"
    then obtain a b where ab: "name_segment a" "name_segment b" "s = a @ ''.'' @ b"
      by blast
    then show ?thesis
      by (simp add: spec_accepts_def split_on_append_sep split_on_no_sep name_segment_no_dot)
  qed
qed

lemma takeWhile_segment:
  "list_all word_char a \<Longrightarrow> r = [] \<or> \<not> word_char (hd r) \<Longrightarrow>
     takeWhile word_char (a @ r) = a \<and> dropWhile word_char (a @ r) = r"
  by (induction a) (cases r; auto)+

lemma at_dollar_start: "at_dollar e \<Longrightarrow> e = [] \<or> \<not> word_char (hd e)"
  using not_word_char_newline by (auto simp: at_dollar_def)

lemma table_name_match_iff:
  "table_name_match s \<longleftrightarrow>
     (\<exists>a e. name_segment a \<and> at_dollar e \<and>
        (s = a @ e \<or> (\<exists>b. name_segment b \<and> s = a @ ''.'' @ b @ e)))"
  (is "?L \<longleftrightarrow> ?R")
proof
  assume m: ?L
  let ?a = "takeWhile word_char s" and ?r = "dropWhile word_char s"
  have s: "s = ?a @ ?r" by simp
  have a: "name_segment ?a"
    using m by (auto simp: table_name_match_def Let_def name_segment_def list_all_iff dest: set_takeWhileD)
  show ?R
  proof (cases "at_dollar ?r")
    case True
    with a s show ?thesis by blast
  next
    case False
    with m obtain t where r: "?r = CHR ''.'' # t" and t: "takeWhile word_char t \<noteq> []"
        and e: "at_dollar (dropWhile word_char t)"
      by (auto simp: table_name_match_def Let_def split: list.splits)
    have b: "name_segment (takeWhile word_char t)"
      using t by (auto simp: name_segment_def list_all_iff dest: set_takeWhileD)
    have "s = ?a @ ''.'' @ takeWhile word_char t @ dropWhile word_char t"
      using s r by simp
    with a b e show ?thesis by blast
  qed
next
  assume ?R
  then obtain a e where a: "name_segment a" and e: "at_dollar e"
      and s: "s = a @ e \<or> (\<exists>b. name_segment b \<and> s = a @ ''.'' @ b @ e)"
    by blast
  from s show ?L
  proof
    assume "s = a @ e"
    with a e takeWhile_segment [of a e] at_dollar_start [OF e] show ?thesis
      by (simp add: table_name_match_def Let_def name_segment_def)
  next
    assume "\<exists>b. name_segment b \<and> s = a @ ''.'' @ b @ e"
    then obtain b where b: "name_segment b" and sb: "s = a @ ''.'' @ b @ e" by blast
    have 1: "takeWhile word_char s = a \<and> dropWhile word_char s = ''.'' @ b @ e"
      using takeWhile_segment [of a "''.'' @ b @ e"] a sb not_word_char_dot
      by (simp add: name_segment_def)
    have 2: "takeWhile word_char (b @ e) = b \<and> dropWhile word_char (b @ e) = e"
      using takeWhile_segment [of b e] b at_dollar_start [OF e] by (simp add: name_segment_def)
    from 1 2 a b e show ?thesis
      by (simp add: table_name_match_def Let_def name_segment_def)
  qed
qed

lemma table_name_match_spec:
  "table_name_match s \<longleftrightarrow> spec_accepts s \<or> (\<exists>t. s = t @ [newline] \<and> spec_accepts t)"
  unfolding table_name_match_iff spec_accepts_iff at_dollar_def
  by (rule iffI; elim exE conjE disjE; simp; blast?)

text \<open>
  The validator against the specification's reading: it accepts the names the specification
  describes and, because of \<^verbatim>\<open>$\<close>, those names followed by one newline; what it
  returns is the pieces between the dots, each in brackets, joined by dots again.
\<close>

lemma validate_table_name_accepts:
  "(\<exists>r. validate_table_name s = Inr r) \<longleftrightarrow>
     spec_accepts s \<or> (\<exists>t. s = t @ [newline] \<and> spec_accepts t)"
  unfolding table_name_match_spec [symmetric]
  by (simp add: validate_table_name_def Let_def)

lemma validate_table_name_rejects:
  "\<not> table_name_match s \<Longrightarrow> validate_table_name s = Inl (ValueError (''Invalid table name: '' @ s))"
  by (simp add: validate_table_name_def)

lemma validate_table_name_result:
  assumes "validate_table_name s = Inr r"
  shows "r = join ''.'' (map bracket (split_on (CHR ''.'') s))"
proof -
  from assms have m: "table_name_match s"
    by (simp add: validate_table_name_def split: if_splits)
  show ?thesis
  proof (cases "length (split_on (CHR ''.'') s) = 2")
    case True
    then obtain p q where "split_on (CHR ''.'') s = [p, q]"
      by (auto simp: length_Suc_conv numeral_2_eq_2)
    with assms m show ?thesis
      by (simp add: validate_table_name_def bracket_def)
  next
    case False
    from m obtain a e where a: "name_segment a" and e: "at_dollar e"
        and s: "s = a @ e \<or> (\<exists>b. name_segment b \<and> s = a @ ''.'' @ b @ e)"
      unfolding table_name_match_iff by blast
    have e_no_dot: "CHR ''.'' \<notin> set e"
      using e by (auto simp: at_dollar_def newline_def)
    from s have "s = a @ e"
    proof
      assume "\<exists>b. name_segment b \<and> s = a @ ''.'' @ b @ e"
      then obtain b where b: "name_segment b" and sb: "s = a @ ''.'' @ b @ e"
        by blast
      have "split_on (CHR ''.'') s = [a, b @ e]"
        using sb a b e_no_dot
        by (simp add: split_on_append_sep split_on_no_sep name_segment_no_dot)
      with False show ?thesis by simp
    qed
    then have "split_on (CHR ''.'') s = [s]"
      using a e_no_dot by (simp add: split_on_no_sep name_segment_no_dot)
    with assms m False show ?thesis
      by (simp add: validate_table_name_def bracket_def)
  qed
qed

lemma validate_table_name_examples:
  "validate_table_name ''dbo.accounts'' = Inr ''[dbo].[accounts]''"
  "validate_table_name ''accounts'' = Inr ''[accounts]''"
  "validate_table_name ''accounts; DROP TABLE x''
     = Inl (ValueError ''Invalid table name: accounts; DROP TABLE x'')"
  "validate_table_name ''1bad name'' = Inl (ValueError ''Invalid table name: 1bad name'')"
  "validate_table_name [] = Inl (ValueError ''Invalid table name: '')"
  "validate_table_name ''a.b.c'' = Inl (ValueError ''Invalid table name: a.b.c'')"
  by (simp_all add: table_name_defs)

text \<open>
  Claim C3: the validator succeeds exactly on one or two dot-separated segments of word
  characters, and every other string, white space included, fails. The code accepts a
  name that ends in a newline: \<^verbatim>\<open>$\<close> matches before a final newline, where
  \<^verbatim>\<open>\Z\<close> would not. The string \<^verbatim>\<open>"accounts\n"\<close> is not of the form the claim
  describes, and the validator returns \<^verbatim>\<open>"[accounts\n]"\<close> for it.
\<close>

theorem validate_table_name_trailing_newline:
  "validate_table_name (''accounts'' @ [newline]) = Inr (''[accounts'' @ [newline] @ '']'')
   \<and> \<not> spec_accepts (''accounts'' @ [newline])"
  by (simp add: table_name_defs newline_def spec_accepts_def name_segment_def)

section \<open>The preview of a table with an invalid name\<close>

text \<open>
  Claim C4: for every table name the validator rejects, the preview returns an error
  string with the name in it and attempts no connection. The handler of the preview builds
  that string, but the configuration is resolved before the \<^verbatim>\<open>try\<close> and before the name
  is looked at: with an empty environment the call with \<^verbatim>\<open>1bad name\<close> returns no
  string, the \<^verbatim>\<open>ValueError\<close> of the resolution leaves the operation.
\<close>

theorem read_table_preview_invalid_name_raises:
  "read_table_preview Map.empty (ok_driver empty_result) ''1bad name'' = (Raised missing_config, [])"
  by (simp add: read_table_preview_def get_db_config_empty)

text \<open>
  Where the configuration resolves the code does what the claim says: the preview returns
  \<^verbatim>\<open>Error reading table '<name>': Invalid table name: <name>\<close>, which contains the
  name, and no call to the driver has been made.
\<close>

lemma read_table_preview_invalid_name:
  assumes "get_db_config env = Inr config"
    and "validate_table_name table_name = Inl e"
  shows "read_table_preview env drv table_name =
           (Returned (''Error reading table '' @ [squote] @ table_name @ [squote]
                      @ '': Invalid table name: '' @ table_name), [])
       \<and> sublist table_name (''Error reading table '' @ [squote] @ table_name @ [squote]
                      @ '': Invalid table name: '' @ table_name)"
proof -
  from assms have "read_table_preview env drv table_name =
           (Returned (''Error reading table '' @ [squote] @ table_name @ [squote]
                      @ '': Invalid table name: '' @ table_name), [])"
    by (auto simp: read_table_preview_def action_defs validate_table_name_def Let_def
        split: if_splits)
  moreover have "sublist table_name ((''Error reading table '' @ [squote] @ table_name @ [squote]
                      @ '': Invalid table name: '') @ table_name @ [])"
    by (rule sublist_appendI)
  ultimately show ?thesis by simp
qed

lemma read_table_preview_invalid_name_example:
  "read_table_preview cred_env (ok_driver empty_result) ''1bad name'' =
     (Returned (''Error reading table '' @ [squote] @ ''1bad name'' @ [squote]
                @ '': Invalid table name: 1bad name''), [])"
proof -
  have v: "validate_table_name ''1bad name'' = Inl (ValueError ''Invalid table name: 1bad name'')"
    by (simp add: table_name_defs)
  from read_table_preview_invalid_name [OF get_db_config_cred_env v, of "ok_driver empty_result"]
  show ?thesis by simp
qed

section \<open>The resolved configuration\<close>

text \<open>
  Claim C5: a configuration that \<^verbatim>\<open>get_db_config\<close> returns satisfies the invariant of
  the authentication mode. With the integrated-authentication flag set, the database is a
  non-empty string and the keys \<^verbatim>\<open>user\<close> and \<^verbatim>\<open>password\<close> are absent; otherwise
  user, password and database are non-empty strings, so that resolution has failed
  whenever one of the three variables is empty or unset.
\<close>

theorem get_db_config_auth_invariant:
  assumes "get_db_config env = Inr config"
  shows "(if use_windows_auth env
          then nonempty_str (config ''database'')
               \<and> ''user'' \<notin> dom config \<and> ''password'' \<notin> dom config
          else nonempty_str (config ''user'') \<and> nonempty_str (config ''password'')
               \<and> nonempty_str (config ''database'')
               \<and> \<not> unset_or_empty env ''MSSQL_USER''
               \<and> \<not> unset_or_empty env ''MSSQL_PASSWORD''
               \<and> \<not> unset_or_empty env ''MSSQL_DATABASE'')"
  using assms
  by (auto simp: get_db_config_def Let_def getenv_val_def nonempty_str_def unset_or_empty_def
      split: sum.splits if_splits option.splits)

theorem get_db_config_auth_invariant_witness:
  "get_db_config win_env = Inr win_config \<and> use_windows_auth win_env
   \<and> nonempty_str (win_config ''database'')
   \<and> ''user'' \<notin> dom win_config \<and> ''password'' \<notin> dom win_config"
proof -
  from get_db_config_auth_invariant [OF get_db_config_win_env]
  have "nonempty_str (win_config ''database'')
        \<and> ''user'' \<notin> dom win_config \<and> ''password'' \<notin> dom win_config"
    by (simp add: use_windows_auth_win_env)
  with get_db_config_win_env use_windows_auth_win_env show ?thesis
    by simp
qed

lemma get_db_config_credentialed_example:
  "get_db_config cred_env = Inr cred_config \<and> \<not> use_windows_auth cred_env
   \<and> nonempty_str (cred_config ''user'') \<and> nonempty_str (cred_config ''password'')
   \<and> nonempty_str (cred_config ''database'')"
  by (simp add: get_db_config_cred_env config_defs cred_env_def cred_config_def nonempty_str_def)

section \<open>The formatted result\<close>

text \<open>
  Claim C6: for a statement that produces rows, the output of \<^verbatim>\<open>execute_sql\<close> is the
  column names joined by commas as the first line, then one line per row in the order of
  the rows, each the \<^verbatim>\<open>str\<close> renderings of its cells joined by commas, and the lines
  joined by newlines. The statement is about any run in which the configuration resolves
  and no driver call raises; the driver calls made are those of the success path, which
  ends with the two closes.
\<close>

theorem execute_sql_formats_rows:
  assumes "get_db_config env = Inr config"
    and "connect_result drv config = None" and "cursor_result drv = None"
    and "execute_result drv query [] = Inr rs"
    and "description rs = Some columns" and "columns \<noteq> []"
    and "fetched rs = Inr rows"
    and "cursor_close_result drv = None" and "conn_close_result drv = None"
  shows "execute_sql env drv query =
           (Returned (join [newline]
              (join '','' columns # map (\<lambda>row. join '','' (map py_str row)) rows)),
            [Connect config, Cursor, Execute query [], FetchAll, CursorClose, ConnClose])"
  using assms by (simp add: execute_sql_def action_defs format_rows_def)

text \<open>The example of the claim: columns a, b and rows (1, 2), (3, 4).\<close>

theorem execute_sql_formats_rows_witness:
  "execute_sql cred_env (ok_driver ab_result) ''SELECT a, b FROM t'' =
     (Returned (''a,b'' @ [newline] @ ''1,2'' @ [newline] @ ''3,4''),
      [Connect cred_config, Cursor, Execute ''SELECT a, b FROM t'' [], FetchAll,
       CursorClose, ConnClose])"
proof -
  have "execute_sql cred_env (ok_driver ab_result) ''SELECT a, b FROM t'' =
      (Returned (join [newline] (join '','' [''a'', ''b'']
          # map (\<lambda>row. join '','' (map py_str row)) [[PInt 1, PInt 2], [PInt 3, PInt 4]])),
       [Connect cred_config, Cursor, Execute ''SELECT a, b FROM t'' [], FetchAll,
        CursorClose, ConnClose])"
    by (rule execute_sql_formats_rows [where rs = ab_result])
      (simp_all add: get_db_config_cred_env ok_driver_def ab_result_def)
  then show ?thesis
    by (simp add: str_of_int_small)
qed

text \<open>
  Claim C7: when a row-producing execution returns no rows, \<^verbatim>\<open>execute_sql\<close> returns
  the header line alone, \<^verbatim>\<open>read_table_preview\<close> returns
  \<^verbatim>\<open>No data found in this table.\<close> and \<^verbatim>\<open>list_sql_tables\<close> returns
  \<^verbatim>\<open>No tables found in this database.\<close> Each of the three parts stands on its own
  hypotheses: the configuration resolves, no driver call of that operation raises, and the
  statement of that operation yields no rows. Each part gives the driver calls as well:
  the statement is sent, the rows are fetched, cursor and connection are closed.
\<close>

theorem zero_rows_outputs:
  "(get_db_config env = Inr config \<and> connect_result drv config = None
      \<and> cursor_result drv = None \<and> execute_result drv query [] = Inr rs
      \<and> description rs = Some columns \<and> columns \<noteq> [] \<and> fetched rs = Inr []
      \<and> cursor_close_result drv = None \<and> conn_close_result drv = None
    \<longrightarrow> execute_sql env drv query =
          (Returned (join '','' columns),
           [Connect config, Cursor, Execute query [], FetchAll, CursorClose, ConnClose]))
   \<and> (get_db_config env = Inr config \<and> validate_table_name table_name = Inr safe_table
      \<and> connect_result drv config = None \<and> cursor_result drv = None
      \<and> execute_result drv (''SELECT TOP 100 * FROM '' @ safe_table) [] = Inr rs
      \<and> description rs = Some columns \<and> fetched rs = Inr []
      \<and> cursor_close_result drv = None \<and> conn_close_result drv = None
    \<longrightarrow> read_table_preview env drv table_name =
          (Returned ''No data found in this table.'',
           [Connect config, Cursor, Execute (''SELECT TOP 100 * FROM '' @ safe_table) [],
            FetchAll, CursorClose, ConnClose]))
   \<and> (get_db_config env = Inr config \<and> connect_result drv config = None
      \<and> cursor_result drv = None
      \<and> execute_result drv list_tables_sql [] = Inr rs \<and> fetched rs = Inr []
      \<and> cursor_close_result drv = None \<and> conn_close_result drv = None
    \<longrightarrow> list_sql_tables env drv =
          (Returned ''No tables found in this database.'',
           [Connect config, Cursor, Execute list_tables_sql [], FetchAll, CursorClose,
            ConnClose]))"
  by (simp add: execute_sql_def read_table_preview_def list_sql_tables_def action_defs
      format_rows_def)

text \<open>
  The first two parts on a database that holds one table, which is empty, so that its
  listing has a row; the third on a database without tables.
\<close>

theorem zero_rows_outputs_witness:
  "execute_sql cred_env one_table_driver ''SELECT id, name FROM t'' =
     (Returned ''id,name'',
      [Connect cred_config, Cursor, Execute ''SELECT id, name FROM t'' [], FetchAll,
       CursorClose, ConnClose])
   \<and> read_table_preview cred_env one_table_driver ''dbo.t'' =
     (Returned ''No data found in this table.'',
      [Connect cred_config, Cursor, Execute ''SELECT TOP 100 * FROM [dbo].[t]'' [], FetchAll,
       CursorClose, ConnClose])
   \<and> list_sql_tables cred_env (ok_driver empty_result) =
     (Returned ''No tables found in this database.'',
      [Connect cred_config, Cursor, Execute list_tables_sql [], FetchAll, CursorClose,
       ConnClose])"
proof -
  have v: "validate_table_name ''dbo.t'' = Inr ''[dbo].[t]''"
    by (simp add: table_name_defs)
  have a: "execute_sql cred_env one_table_driver ''SELECT id, name FROM t'' =
     (Returned (join '','' [''id'', ''name'']),
      [Connect cred_config, Cursor, Execute ''SELECT id, name FROM t'' [], FetchAll,
       CursorClose, ConnClose])"
    using zero_rows_outputs [where env = cred_env and config = cred_config
        and drv = one_table_driver and query = "''SELECT id, name FROM t''"
        and rs = empty_result and columns = "[''id'', ''name'']"]
    by (simp add: get_db_config_cred_env one_table_driver_def empty_result_def not_listing)
  have b: "read_table_preview cred_env one_table_driver ''dbo.t'' =
     (Returned ''No data found in this table.'',
      [Connect cred_config, Cursor, Execute (''SELECT TOP 100 * FROM '' @ ''[dbo].[t]'') [],
       FetchAll, CursorClose, ConnClose])"
    using zero_rows_outputs [where env = cred_env and config = cred_config
        and drv = one_table_driver and table_name = "''dbo.t''"
        and safe_table = "''[dbo].[t]''" and rs = empty_result
        and columns = "[''id'', ''name'']"]
    by (simp add: get_db_config_cred_env v one_table_driver_def empty_result_def not_listing)
  have c: "list_sql_tables cred_env (ok_driver empty_result) =
     (Returned ''No tables found in this database.'',
      [Connect cred_config, Cursor, Execute list_tables_sql [], FetchAll, CursorClose,
       ConnClose])"
    using zero_rows_outputs [where env = cred_env and config = cred_config
        and drv = "ok_driver empty_result" and rs = empty_result]
    by (simp add: get_db_config_cred_env ok_driver_def empty_result_def)
  from a b c show ?thesis by simp
qed

text \<open>With a table in the database the listing is the header and one line per table.\<close>

lemma list_sql_tables_one_table:
  "list_sql_tables cred_env one_table_driver =
     (Returned (''Schema,Table'' @ [newline] @ ''dbo,t''),
      [Connect cred_config, Cursor, Execute list_tables_sql [], FetchAll, CursorClose,
       ConnClose])"
  by (simp add: list_sql_tables_def get_db_config_cred_env action_defs one_table_driver_def
      tables_result_def)

section \<open>Missing configuration\<close>

text \<open>
  Claim C8, as written: a missing database under integrated authentication and missing
  credentials otherwise fail with two distinct messages. The code raises
  \<^verbatim>\<open>ValueError("Missing required database configuration")\<close> in both branches; only
  the log lines differ.
\<close>

theorem missing_config_same_message:
  "get_db_config [''MSSQL_WINDOWS_AUTH'' \<mapsto> ''true'']
     = Inl (ValueError ''Missing required database configuration'')
   \<and> get_db_config [''MSSQL_USER'' \<mapsto> ''sa'']
     = Inl (ValueError ''Missing required database configuration'')"
  by (simp add: config_defs)

text \<open>
  Claim C8, amended: when integrated authentication is requested and the database name is
  empty or unset, and when credentialed authentication is in effect and one of user,
  password and database is empty or unset, configuration resolution fails with a
  \<^verbatim>\<open>ValueError\<close>: the one \<^verbatim>\<open>int\<close> raises when the port variable is not an integer
  literal, and otherwise, in both cases alike, the one with the message
  \<^verbatim>\<open>Missing required database configuration\<close>.
\<close>

theorem get_db_config_missing:
  assumes "if use_windows_auth env then unset_or_empty env ''MSSQL_DATABASE''
           else unset_or_empty env ''MSSQL_USER'' \<or> unset_or_empty env ''MSSQL_PASSWORD''
                \<or> unset_or_empty env ''MSSQL_DATABASE''"
  shows "get_db_config env =
           (case py_int (getenv_default env ''MSSQL_PORT'' ''1433'') of
              Inl e \<Rightarrow> Inl e
            | Inr port \<Rightarrow> Inl (ValueError ''Missing required database configuration''))"
  using assms
  by (auto simp: get_db_config_def Let_def missing_config_def getenv_val_def unset_or_empty_def
      split: if_splits sum.splits option.splits)

theorem get_db_config_missing_witness:
  "use_windows_auth [''MSSQL_WINDOWS_AUTH'' \<mapsto> ''TRUE'', ''MSSQL_DATABASE'' \<mapsto> '''']
   \<and> unset_or_empty [''MSSQL_WINDOWS_AUTH'' \<mapsto> ''TRUE'', ''MSSQL_DATABASE'' \<mapsto> ''''] ''MSSQL_DATABASE''
   \<and> get_db_config [''MSSQL_WINDOWS_AUTH'' \<mapsto> ''TRUE'', ''MSSQL_DATABASE'' \<mapsto> '''']
       = Inl (ValueError ''Missing required database configuration'')"
proof -
  let ?env = "[''MSSQL_WINDOWS_AUTH'' \<mapsto> ''TRUE'', ''MSSQL_DATABASE'' \<mapsto> '''']"
  have w: "use_windows_auth ?env"
    by (simp add: config_defs)
  have d: "unset_or_empty ?env ''MSSQL_DATABASE''"
    by (simp add: unset_or_empty_def)
  have p: "py_int (getenv_default ?env ''MSSQL_PORT'' ''1433'') = Inr 1433"
    by (simp add: config_defs)
  from w d have "if use_windows_auth ?env then unset_or_empty ?env ''MSSQL_DATABASE''
           else unset_or_empty ?env ''MSSQL_USER'' \<or> unset_or_empty ?env ''MSSQL_PASSWORD''
                \<or> unset_or_empty ?env ''MSSQL_DATABASE''"
    by simp
  from get_db_config_missing [OF this] p w d show ?thesis
    by simp
qed

section \<open>The port\<close>

text \<open>
  Claim C9, as written: the resolved port lies between 1 and 65535. The code takes
  \<^verbatim>\<open>int(os.getenv("MSSQL_PORT", "1433"))\<close> as it is and checks no range: with the port
  variable set to 70000 resolution succeeds and the port is 70000.
\<close>

theorem port_out_of_range:
  "resolved_port (cred_env(''MSSQL_PORT'' \<mapsto> ''70000'')) = Inr (Some (PInt 70000))"
  by (simp add: resolved_port_def config_defs cred_env_def)

text \<open>
  Claim C9, amended: whenever configuration resolution succeeds, the resolved port is the
  integer that \<^verbatim>\<open>int\<close> reads from the port variable, whatever its size or sign, and it
  is 1433 when the variable is unset.
\<close>

theorem get_db_config_port:
  assumes "get_db_config env = Inr config"
  shows "\<exists>port. py_int (getenv_default env ''MSSQL_PORT'' ''1433'') = Inr port
           \<and> config ''port'' = Some (PInt port)
           \<and> (env ''MSSQL_PORT'' = None \<longrightarrow> port = 1433)"
  using assms
  by (auto simp: get_db_config_def Let_def getenv_default_def py_int_def int_space_def
      is_digit_def digit_val_def split: sum.splits if_splits)

theorem get_db_config_port_witness:
  "get_db_config cred_env = Inr cred_config \<and> cred_env ''MSSQL_PORT'' = None
   \<and> cred_config ''port'' = Some (PInt 1433)"
proof -
  have u: "cred_env ''MSSQL_PORT'' = None"
    by (simp add: cred_env_def)
  from get_db_config_port [OF get_db_config_cred_env] u
  have "cred_config ''port'' = Some (PInt 1433)"
    by auto
  with get_db_config_cred_env u show ?thesis
    by simp
qed

section \<open>The year of the login count\<close>

text \<open>
  Claim C10: \<^verbatim>\<open>count_user_logins\<close> treats an integer year and its decimal string
  alike, because the year is turned into its string form before use. For every
  environment, driver, user id and integer \<open>y\<close>:
  the call with the integer and the call with \<^verbatim>\<open>str(y)\<close> make the same driver calls
  and give the same result;
  once connection and cursor are open, the statement sent is the counting statement with
  the user id and the string \<^verbatim>\<open>str(y)\<close> as its two bound values (for a string year,
  that string);
  and when the driver answers with a row, the result is the sentence built from the user
  id, the first cell of the row and \<^verbatim>\<open>str(y)\<close>, after which cursor and connection
  are closed.
\<close>

theorem count_user_logins_year_coercion:
  "count_user_logins env drv user_id (YearInt y)
     = count_user_logins env drv user_id (YearStr (str_of_int y))
   \<and> (get_db_config env = Inr config \<and> connect_result drv config = None
        \<and> cursor_result drv = None
      \<longrightarrow> take 3 (snd (count_user_logins env drv user_id (YearInt y))) =
            [Connect config, Cursor, Execute count_sql [PStr user_id, PStr (str_of_int y)]]
        \<and> take 3 (snd (count_user_logins env drv user_id (YearStr s))) =
            [Connect config, Cursor, Execute count_sql [PStr user_id, PStr s]])
   \<and> (get_db_config env = Inr config \<and> connect_result drv config = None
        \<and> cursor_result drv = None
        \<and> execute_result drv count_sql [PStr user_id, PStr (str_of_int y)] = Inr rs
        \<and> fetched rs = Inr ((count # cells) # rows)
        \<and> cursor_close_result drv = None \<and> conn_close_result drv = None
      \<longrightarrow> count_user_logins env drv user_id (YearInt y) =
            (Returned (user_id @ '' appeared '' @ py_str count @ '' times in '' @ str_of_int y),
             [Connect config, Cursor, Execute count_sql [PStr user_id, PStr (str_of_int y)],
              FetchOne, CursorClose, ConnClose]))"
proof (intro conjI impI)
  show "count_user_logins env drv user_id (YearInt y)
          = count_user_logins env drv user_id (YearStr (str_of_int y))"
    by (simp add: count_user_logins_def)
next
  assume "get_db_config env = Inr config \<and> connect_result drv config = None
            \<and> cursor_result drv = None"
  then show "take 3 (snd (count_user_logins env drv user_id (YearInt y))) =
      [Connect config, Cursor, Execute count_sql [PStr user_id, PStr (str_of_int y)]]"
    by (simp add: count_user_logins_def Let_def action_defs
        split: sum.splits list.splits option.splits)
next
  assume "get_db_config env = Inr config \<and> connect_result drv config = None
            \<and> cursor_result drv = None"
  then show "take 3 (snd (count_user_logins env drv user_id (YearStr s))) =
      [Connect config, Cursor, Execute count_sql [PStr user_id, PStr s]]"
    by (simp add: count_user_logins_def Let_def action_defs
        split: sum.splits list.splits option.splits)
next
  assume "get_db_config env = Inr config \<and> connect_result drv config = None
        \<and> cursor_result drv = None
        \<and> execute_result drv count_sql [PStr user_id, PStr (str_of_int y)] = Inr rs
        \<and> fetched rs = Inr ((count # cells) # rows)
        \<and> cursor_close_result drv = None \<and> conn_close_result drv = None"
  then show "count_user_logins env drv user_id (YearInt y) =
      (Returned (user_id @ '' appeared '' @ py_str count @ '' times in '' @ str_of_int y),
       [Connect config, Cursor, Execute count_sql [PStr user_id, PStr (str_of_int y)],
        FetchOne, CursorClose, ConnClose])"
    by (simp add: count_user_logins_def Let_def action_defs)
qed

text \<open>
  The scenario of the specification: three matching rows for \<^verbatim>\<open>alice\<close> in 2023, asked
  for with the integer and with the string.
\<close>

theorem count_user_logins_year_coercion_witness:
  "count_user_logins cred_env (ok_driver count_result) ''alice'' (YearInt 2023) =
     (Returned ''alice appeared 3 times in 2023'',
      [Connect cred_config, Cursor, Execute count_sql [PStr ''alice'', PStr ''2023''],
       FetchOne, CursorClose, ConnClose])
   \<and> count_user_logins cred_env (ok_driver count_result) ''alice'' (YearStr ''2023'') =
     (Returned ''alice appeared 3 times in 2023'',
      [Connect cred_config, Cursor, Execute count_sql [PStr ''alice'', PStr ''2023''],
       FetchOne, CursorClose, ConnClose])"
proof -
  have y: "str_of_int 2023 = ''2023''"
    by (simp add: str_of_int_def str_of_nat.simps digit_char_def)
  have n: "str_of_int 3 = ''3''"
    by (simp add: str_of_int_def str_of_nat.simps digit_char_def)
  have h: "get_db_config cred_env = Inr cred_config
        \<and> connect_result (ok_driver count_result) cred_config = None
        \<and> cursor_result (ok_driver count_result) = None
        \<and> execute_result (ok_driver count_result) count_sql
              [PStr ''alice'', PStr (str_of_int 2023)] = Inr count_result
        \<and> fetched count_result = Inr ((PInt 3 # []) # [])
        \<and> cursor_close_result (ok_driver count_result) = None
        \<and> conn_close_result (ok_driver count_result) = None"
    by (simp add: get_db_config_cred_env ok_driver_def count_result_def)
  note t = count_user_logins_year_coercion [where env = cred_env and config = cred_config
      and drv = "ok_driver count_result" and user_id = "''alice''" and y = 2023
      and rs = count_result and count = "PInt 3" and cells = "[]" and rows = "[]"
      and s = "''2023''"]
  from t have e: "count_user_logins cred_env (ok_driver count_result) ''alice'' (YearInt 2023)
      = count_user_logins cred_env (ok_driver count_result) ''alice''
          (YearStr (str_of_int 2023))"
    by (rule conjunct1)
  from t h have r: "count_user_logins cred_env (ok_driver count_result) ''alice'' (YearInt 2023)
      = (Returned (''alice'' @ '' appeared '' @ py_str (PInt 3) @ '' times in ''
                   @ str_of_int 2023),
         [Connect cred_config, Cursor,
          Execute count_sql [PStr ''alice'', PStr (str_of_int 2023)],
          FetchOne, CursorClose, ConnClose])"
    by blast
  from e r show ?thesis
    by (simp add: y n)
qed

end
